theory Spec2Isabelle
  imports Complex_Main "HOL-Library.Stream" "HOL-Library.AList"
begin

section \<open>Data model of Game/Managers/SoloCombat.py\<close>

text \<open>
  Conventions of the embedding.
  \<^item> Python integers are \<open>int\<close>; Python floats are idealised as \<open>real\<close> (no rounding),
    and an integer is coerced with \<open>real_of_int\<close> where the source mixes both.  Only
    the range of the power score depends on rounding; for it the last lines of
    \<open>calculate_power_score\<close> are embedded a second time, in double precision.
  \<^item> A dictionary whose iteration order is observed (\<open>player.equipment\<close>, an item) is an
    association list read with \<open>map_of\<close>; \<open>player.stats\<close> is only read by key and is a map.
  \<^item> Every exception the source can raise is a value \<open>Inl e\<close>.
  \<^item> The process-wide random generator is made explicit: the successive results of
    \<open>random.uniform(0, 10)\<close> (and of \<open>random.random()\<close> in the defeat handler) are a
    stream that is threaded through the calls; \<open>random.randint\<close> and
    \<open>random.sample\<close> compute their results from raw values of the generator, which
    are parameters of the monster selector.
  \<^item> Record fields carry a prefix where two source classes use the same attribute name
    (\<open>level\<close>, \<open>monster_id\<close>, \<open>damage_taken\<close>, \<open>gold\<close>, \<open>experience\<close>).
\<close>

datatype error =
    KeyError string      \<comment> \<open>subscript of a dict with an absent key\<close>
  | ValueError           \<comment> \<open>\<open>random.randint\<close> on an empty range, \<open>random.sample\<close> with a bad size\<close>
  | AttributeError       \<comment> \<open>attribute read on an entity of the other class\<close>

text \<open>An equipped item is a dict; only its numeric attributes are read by this module.\<close>

type_synonym item = "(string \<times> real) list"

record player =
  level :: int
  stats :: "string \<rightharpoonup> int"
  equipment :: "(string \<times> item option) list"
  current_hp :: real
  max_hp :: real
  gold :: int
  experience :: int
  current_party_id :: "string option"

record monster =
  monster_id :: string
  name :: string
  monster_level :: int
  rarity :: string
  monster_type :: string
  hp :: int
  damage :: int
  defense :: int
  experience_reward :: int
  gold_reward :: int
  loot_table :: "string list"

datatype entity = PlayerEntity player | MonsterEntity monster

text \<open>Python truthiness of an equipment slot: \<open>None\<close> and the empty dict are falsy.\<close>

fun truthy :: "item option \<Rightarrow> bool" where
  "truthy None = False"
| "truthy (Some []) = False"
| "truthy (Some (a # as)) = True"

text \<open>\<open>item.get('power', 0)\<close>\<close>

definition item_power :: "item \<Rightarrow> real" where
  "item_power it = (case map_of it ''power'' of None \<Rightarrow> 0 | Some v \<Rightarrow> v)"

text \<open>\<open>entity.stats[key]\<close>: a subscript, which raises on an absent key.\<close>

definition stat_subscript :: "(string \<rightharpoonup> int) \<Rightarrow> string \<Rightarrow> error + int" where
  "stat_subscript st k = (case st k of None \<Rightarrow> Inl (KeyError k) | Some v \<Rightarrow> Inr v)"

section \<open>CombatSystem.calculate_power_score\<close>

text \<open>The loop over \<open>entity.equipment.values()\<close> that accumulates \<open>equipment_bonus\<close>.\<close>

definition equipment_bonus :: "(string \<times> item option) list \<Rightarrow> real" where
  "equipment_bonus eq =
     foldl (\<lambda>acc slot_item.
              if truthy (snd slot_item) then acc + item_power (the (snd slot_item)) else acc)
           0 eq"

definition rarity_multipliers :: "string \<rightharpoonup> real" where
  "rarity_multipliers =
     [''E'' \<mapsto> 1.0, ''D'' \<mapsto> 1.3, ''C'' \<mapsto> 1.6, ''B'' \<mapsto> 2.0, ''A'' \<mapsto> 2.5, ''S'' \<mapsto> 3.0]"

text \<open>\<open>rarity_multipliers.get(entity.rarity, 1.0)\<close>\<close>

definition rarity_multiplier :: "string \<Rightarrow> real" where
  "rarity_multiplier r = (case rarity_multipliers r of None \<Rightarrow> 1.0 | Some x \<Rightarrow> x)"

text \<open>
  The value of \<open>base_score\<close> when line 44 is reached, or the exception raised before.
  The three stat subscripts are evaluated in source order, so the first absent key is the
  one reported.  The classes \<open>Player\<close> and \<open>Monster\<close> are imported from Game.Models; an
  entity of the wrong class for the flag lacks the attributes the branch reads.
\<close>

fun base_score :: "entity \<Rightarrow> bool \<Rightarrow> error + real" where
  "base_score (PlayerEntity p) True =
     (case stat_subscript (stats p) ''strength'' of
        Inl e \<Rightarrow> Inl e
      | Inr s \<Rightarrow>
     (case stat_subscript (stats p) ''agility'' of
        Inl e \<Rightarrow> Inl e
      | Inr a \<Rightarrow>
     (case stat_subscript (stats p) ''vitality'' of
        Inl e \<Rightarrow> Inl e
      | Inr v \<Rightarrow>
          Inr (0 + real_of_int s * 1.5 + real_of_int a * 1.2 + real_of_int v * 1.0
                 + real_of_int (level p * 5) + equipment_bonus (equipment p)))))"
| "base_score (MonsterEntity m) False =
     Inr ((0 + real_of_int (monster_level m * 6) + real_of_int (damage m) * 1.3
             + real_of_int (defense m))
          * rarity_multiplier (rarity m))"
| "base_score (MonsterEntity m) True = Inl AttributeError"
| "base_score (PlayerEntity p) False = Inl AttributeError"

text \<open>
  \<open>calculate_power_score\<close>: the head of the stream is the value \<open>random.uniform(0, 10)\<close>
  returns.  No draw is consumed when the base score raises.
\<close>

definition calculate_power_score ::
  "entity \<Rightarrow> bool \<Rightarrow> real stream \<Rightarrow> (error + real) \<times> real stream" where
  "calculate_power_score e is_player rng =
     (case base_score e is_player of
        Inl err \<Rightarrow> (Inl err, rng)
      | Inr b \<Rightarrow>
          (let mindset = shd rng;
               final_score = b * (1 + (mindset / 20))
           in (Inr final_score, stl rng)))"

section \<open>Lines 44 to 48 in double precision\<close>

text \<open>
  The range of the returned score depends on how the last operations round, so these
  lines are also embedded with Python's float arithmetic written out.  A float is a real
  number that \<open>round_double\<close> leaves fixed; every float operation is the exact
  operation followed by \<open>round_double\<close>, the rounding of IEEE 754 binary64 to the
  nearest value with 53 significant bits, ties to the even one.  Overflow and
  subnormal numbers, which arise only for magnitudes above \<open>10\<^sup>3\<^sup>0\<^sup>8\<close> or below
  \<open>10\<^sup>-\<^sup>3\<^sup>0\<^sup>7\<close>, are left out.
\<close>

definition round_half_even :: "real \<Rightarrow> int" where
  "round_half_even t =
     (let f = \<lfloor>t\<rfloor>; d = t - of_int f
      in if d < 1/2 then f else if 1/2 < d then f + 1 else if even f then f else f + 1)"

definition ulp_exponent :: "real \<Rightarrow> int" where
  "ulp_exponent x = \<lfloor>log 2 \<bar>x\<bar>\<rfloor> - 52"

definition round_double :: "real \<Rightarrow> real" where
  "round_double x =
     (if x = 0 then 0
      else of_int (round_half_even (x / 2 powr of_int (ulp_exponent x)))
             * 2 powr of_int (ulp_exponent x))"

text \<open>
  \<open>random.random()\<close> returns a multiple of \<open>2\<^sup>-\<^sup>5\<^sup>3\<close> in \<open>[0, 1)\<close>, determined by
  53 bits \<open>raw\<close> of the generator; \<open>random.uniform(a, b)\<close> is documented as
  \<open>a + (b - a) * random()\<close>, here with the integer arguments of the call on line 45.
\<close>

definition random_random :: "nat \<Rightarrow> real" where
  "random_random raw = of_nat (raw mod 2 ^ 53) / 2 ^ 53"

definition uniform :: "int \<Rightarrow> int \<Rightarrow> real \<Rightarrow> real" where
  "uniform a b u = round_double (of_int a + round_double (of_int (b - a) * u))"

text \<open>
  Lines 45 to 48, with \<open>base\<close> the float that \<open>base_score\<close> holds there: the
  draw, the quotient by 20, the sum with 1 and the product, each rounded.
\<close>

definition final_score_double :: "real \<Rightarrow> nat \<Rightarrow> real" where
  "final_score_double base raw =
     (let mindset = uniform 0 10 (random_random raw);
          final_score = round_double (base * round_double (1 + round_double (mindset / 20)))
      in final_score)"

section \<open>RaidManager.generate_monsters\<close>

text \<open>
  A template record of the monsters collection.  Keys the source subscripts
  (\<open>monster_data["monster_id"]\<close>, \<open>["name"]\<close>, \<open>["level"]\<close>) are fields; keys it reads
  with \<open>.get(key, default)\<close> are optional.
\<close>

record template =
  t_monster_id :: string
  t_name :: string
  t_level :: int
  t_monster_type :: "string option"
  t_base_hp :: "int option"
  t_base_damage :: "int option"
  t_base_defense :: "int option"
  t_experience_reward :: "int option"
  t_gold_reward :: "int option"
  t_loot_table :: "string list option"

text \<open>\<open>d.get(key, default)\<close> on an optional key.\<close>

definition get_default :: "'a option \<Rightarrow> 'a \<Rightarrow> 'a" where
  "get_default v d = (case v of None \<Rightarrow> d | Some x \<Rightarrow> x)"

definition rarity_ranges :: "(string \<times> int \<times> int) list" where
  "rarity_ranges =
     [(''E'', 1, 10), (''D'', 11, 20), (''C'', 21, 30),
      (''B'', 31, 40), (''A'', 41, 50), (''S'', 51, 60)]"

text \<open>
  Lines 69 to 73: the loop over \<open>rarity_ranges.items()\<close> in insertion order, leaving
  at the first range whose upper bound admits the tower level; \<open>cur\<close> is the value
  \<open>current_rarity\<close> holds when no range does.
\<close>

fun rarity_loop :: "(string \<times> int \<times> int) list \<Rightarrow> int \<Rightarrow> string \<Rightarrow> string" where
  "rarity_loop [] tower_level cur = cur"
| "rarity_loop ((r, min_level, max_level) # rest) tower_level cur =
     (if tower_level \<le> max_level then r else rarity_loop rest tower_level cur)"

definition current_rarity :: "int \<Rightarrow> string" where
  "current_rarity tower_level = rarity_loop rarity_ranges tower_level ''E''"

text \<open>
  \<open>monsters_collection.find({"monster_id": {"$regex": "^" + current_rarity}})\<close>: the
  templates whose identifier starts with the tier's letter, in collection order.
\<close>

definition find_monsters :: "template list \<Rightarrow> string \<Rightarrow> template list" where
  "find_monsters collection r =
     filter (\<lambda>t. take (length r) (t_monster_id t) = r) collection"

text \<open>
  The two library calls.  The state of the generator is made explicit as raw values
  \<open>raw\<close> and \<open>raws\<close>, which may be any numbers; what the calls return is computed
  from them and from the arguments the source passes.
  \<^item> \<open>random.randint(a, b)\<close> raises ValueError on an empty range and otherwise returns
    an integer \<open>N\<close> with \<open>a \<le> N \<le> b\<close>: here \<open>a + raw mod (b - a + 1)\<close>, so that
    every \<open>N\<close> of the range arises from some raw value and no other number does.
  \<^item> \<open>random.sample(population, k)\<close> raises ValueError unless
    \<open>0 \<le> k \<le> len(population)\<close> and otherwise returns \<open>k\<close> elements taken from
    the population without replacement, in selection order: each raw value picks one of
    the positions not picked before.
\<close>

definition randint :: "int \<Rightarrow> int \<Rightarrow> int \<Rightarrow> error + int" where
  "randint a b raw = (if a \<le> b then Inr (a + raw mod (b - a + 1)) else Inl ValueError)"

fun sample_positions :: "nat list \<Rightarrow> nat \<Rightarrow> nat stream \<Rightarrow> nat list" where
  "sample_positions pool 0 raws = []"
| "sample_positions pool (Suc k) raws =
     (if pool = [] then []
      else (let j = shd raws mod length pool
            in pool ! j # sample_positions (take j pool @ drop (Suc j) pool) k (stl raws)))"

definition sample :: "'a list \<Rightarrow> int \<Rightarrow> nat stream \<Rightarrow> error + 'a list" where
  "sample population k raws =
     (if 0 \<le> k \<and> k \<le> int (length population)
      then Inr (map (\<lambda>i. population ! i)
                  (sample_positions [0..<length population] (nat k) raws))
      else Inl ValueError)"

text \<open>Lines 88 to 100: the \<open>Monster\<close> built from one template.\<close>

definition make_monster :: "string \<Rightarrow> template \<Rightarrow> monster" where
  "make_monster cur monster_data =
     \<lparr> monster_id = t_monster_id monster_data,
       name = t_name monster_data,
       monster_level = t_level monster_data,
       rarity = cur,
       monster_type = get_default (t_monster_type monster_data) ''generic'',
       hp = get_default (t_base_hp monster_data) 50,
       damage = get_default (t_base_damage monster_data) 5,
       defense = get_default (t_base_defense monster_data) 3,
       experience_reward = get_default (t_experience_reward monster_data) 15,
       gold_reward = get_default (t_gold_reward monster_data) 10,
       loot_table = get_default (t_loot_table monster_data) [] \<rparr>"

definition generate_monsters ::
  "template list \<Rightarrow> int \<Rightarrow> int \<Rightarrow> int \<Rightarrow> nat stream \<Rightarrow> error + monster list" where
  "generate_monsters collection tower_level player_level raw raws =
     (let cur = current_rarity tower_level;
          potential_monsters = find_monsters collection cur
      in case randint 3 (min (int (length potential_monsters)) 7) raw of
           Inl e \<Rightarrow> Inl e
         | Inr num_monsters \<Rightarrow>
             (case sample potential_monsters num_monsters raws of
                Inl e \<Rightarrow> Inl e
              | Inr selected_monster_data \<Rightarrow>
                  Inr (map (make_monster cur) selected_monster_data)))"

section \<open>RaidManager.process_battle and RaidManager.process_raid\<close>

record rewards =
  reward_gold :: int
  reward_experience :: int

record battle_result =
  player_won :: bool
  battle_damage_taken :: int
  battle_rewards :: rewards
  battle_monster_id :: string

record raid_results =
  monsters_defeated :: "string list"
  monsters_defeated_by :: "string list"
  total_rewards :: rewards
  battles :: "battle_result list"
  raid_complete :: bool
  player_survived :: bool
  damage_taken :: int

text \<open>
  \<open>process_battle\<close> reads the player and the monster and stores into neither, so its
  only outputs are the result dict (or the exception of a power score) and the
  advanced random stream.
\<close>

definition process_battle ::
  "player \<Rightarrow> monster \<Rightarrow> real stream \<Rightarrow> (error + battle_result) \<times> real stream" where
  "process_battle p m rng =
     (case calculate_power_score (PlayerEntity p) True rng of
        (Inl e, rng1) \<Rightarrow> (Inl e, rng1)
      | (Inr player_power, rng1) \<Rightarrow>
     (case calculate_power_score (MonsterEntity m) False rng1 of
        (Inl e, rng2) \<Rightarrow> (Inl e, rng2)
      | (Inr monster_power, rng2) \<Rightarrow>
          (let player_wins = (player_power > monster_power)
           in (Inr \<lparr> player_won = player_wins,
                     battle_damage_taken = (if \<not> player_wins then damage m else 0),
                     battle_rewards =
                       \<lparr> reward_gold = (if player_wins then gold_reward m else 0),
                         reward_experience =
                           (if player_wins then experience_reward m else 0) \<rparr>,
                     battle_monster_id = monster_id m \<rparr>,
               rng2))))"

definition initial_results :: raid_results where
  "initial_results =
     \<lparr> monsters_defeated = [], monsters_defeated_by = [],
       total_rewards = \<lparr> reward_gold = 0, reward_experience = 0 \<rparr>,
       battles = [], raid_complete = False, player_survived = True, damage_taken = 0 \<rparr>"

text \<open>
  Lines 119 to 135, the loop over the selected monsters.  The state is the player (only
  \<open>current_hp\<close> is ever assigned), the accumulated \<open>raid_results\<close> and the random
  stream; an exception of \<open>process_battle\<close> leaves the loop with the player as it is then.
\<close>

fun raid_loop ::
  "monster list \<Rightarrow> player \<Rightarrow> raid_results \<Rightarrow> real stream
     \<Rightarrow> (error + raid_results) \<times> player \<times> real stream" where
  "raid_loop [] p rr rng = (Inr rr, p, rng)"
| "raid_loop (m # ms) p rr rng =
     (if current_hp p \<le> 0 then (Inr (rr\<lparr>player_survived := False\<rparr>), p, rng)
      else
        (case process_battle p m rng of
           (Inl e, rng1) \<Rightarrow> (Inl e, p, rng1)
         | (Inr battle, rng1) \<Rightarrow>
             (let rr1 = rr\<lparr>battles := battles rr @ [battle]\<rparr>
              in if player_won battle
                 then raid_loop ms p
                        (rr1\<lparr>monsters_defeated := monsters_defeated rr1 @ [monster_id m],
                             total_rewards :=
                               \<lparr> reward_gold = reward_gold (total_rewards rr1)
                                                  + reward_gold (battle_rewards battle),
                                 reward_experience = reward_experience (total_rewards rr1)
                                                  + reward_experience (battle_rewards battle) \<rparr>\<rparr>)
                        rng1
                 else (Inr (rr1\<lparr>monsters_defeated_by :=
                                    monsters_defeated_by rr1 @ [monster_id m],
                                  damage_taken :=
                                    damage_taken rr1 + battle_damage_taken battle\<rparr>),
                       p\<lparr>current_hp :=
                           current_hp p - real_of_int (battle_damage_taken battle)\<rparr>,
                       rng1))))"

definition process_raid ::
  "template list \<Rightarrow> player \<Rightarrow> int \<Rightarrow> int \<Rightarrow> nat stream \<Rightarrow> real stream
     \<Rightarrow> (error + raid_results) \<times> player \<times> real stream" where
  "process_raid collection p tower_level raw raws rng =
     (case generate_monsters collection tower_level (level p) raw raws of
        Inl e \<Rightarrow> (Inl e, p, rng)
      | Inr monsters \<Rightarrow>
          (case raid_loop monsters p initial_results rng of
             (Inl e, p1, rng1) \<Rightarrow> (Inl e, p1, rng1)
           | (Inr rr, p1, rng1) \<Rightarrow>
               (Inr (rr\<lparr>raid_complete :=
                         (length (monsters_defeated rr) = length monsters)\<rparr>),
                p1, rng1)))"

section \<open>handle_player_death\<close>

text \<open>\<open>int(x)\<close> on a float: truncation toward zero.\<close>

definition py_int :: "real \<Rightarrow> int" where
  "py_int x = (if 0 \<le> x then \<lfloor>x\<rfloor> else \<lceil>x\<rceil>)"

text \<open>
  Lines 169 to 175.  \<open>entries\<close> are the \<open>(slot, item)\<close> pairs still to visit, \<open>eq\<close>
  is the equipment dict as stored so far; \<open>random.random()\<close> is only called for a
  truthy item (the \<open>and\<close> short-circuits).  A dropped-item record
  \<open>{"slot": slot, "item": item}\<close> is the pair.
\<close>

fun drop_loop ::
  "(string \<times> item option) list \<Rightarrow> (string \<times> item) list \<Rightarrow> (string \<times> item option) list
     \<Rightarrow> real stream \<Rightarrow> (string \<times> item) list \<times> (string \<times> item option) list \<times> real stream"
  where
  "drop_loop [] dropped_items eq rng = (dropped_items, eq, rng)"
| "drop_loop ((slot, it) # entries) dropped_items eq rng =
     (if truthy it then
        (if shd rng < 0.3
         then drop_loop entries (dropped_items @ [(slot, the it)])
                (AList.update slot None eq) (stl rng)
         else drop_loop entries dropped_items eq (stl rng))
      else drop_loop entries dropped_items eq rng)"

definition handle_player_death ::
  "player \<Rightarrow> real stream \<Rightarrow> (string \<times> item) list \<times> player \<times> real stream" where
  "handle_player_death p rng =
     (case drop_loop (equipment p) [] (equipment p) rng of
        (dropped_items, eq, rng1) \<Rightarrow>
          (let gold_loss = py_int (real_of_int (gold p) * 0.2)
           in (dropped_items,
               p\<lparr>equipment := eq,
                 gold := gold p - gold_loss,
                 current_hp := max_hp p * 0.1,
                 current_party_id := None\<rparr>,
               rng1)))"

section \<open>Specification vocabulary and example data\<close>

text \<open>
  \<open>battle_of m b\<close>: the battle result \<open>b\<close> has the shape \<open>process_battle\<close> gives a fight
  against monster \<open>m\<close>, whichever way the fight went.
\<close>

definition battle_of :: "monster \<Rightarrow> battle_result \<Rightarrow> bool" where
  "battle_of m b \<longleftrightarrow>
     battle_monster_id b = monster_id m
     \<and> battle_damage_taken b = (if player_won b then 0 else damage m)
     \<and> reward_gold (battle_rewards b) = (if player_won b then gold_reward m else 0)
     \<and> reward_experience (battle_rewards b) = (if player_won b then experience_reward m else 0)"

text \<open>Concrete inputs on which the theorems below are exercised.\<close>

definition example_player :: player where
  "example_player =
     \<lparr> level = 5, stats = [''strength'' \<mapsto> 10, ''agility'' \<mapsto> 10, ''vitality'' \<mapsto> 10],
       equipment = [(''weapon'', Some [(''power'', 3)]), (''armor'', None),
                    (''ring'', Some [(''power'', 1)])],
       current_hp = 100, max_hp = 100, gold = 100, experience = 0,
       current_party_id = Some ''party-1'' \<rparr>"

definition no_strength_player :: player where
  "no_strength_player =
     \<lparr> level = 1, stats = [''agility'' \<mapsto> 4, ''vitality'' \<mapsto> 6], equipment = [],
       current_hp = 100, max_hp = 100, gold = 100, experience = 0,
       current_party_id = None \<rparr>"

definition example_template :: "string \<Rightarrow> int \<Rightarrow> template" where
  "example_template ident lvl =
     \<lparr> t_monster_id = ident, t_name = ident, t_level = lvl, t_monster_type = None,
       t_base_hp = None, t_base_damage = None, t_base_defense = None,
       t_experience_reward = None, t_gold_reward = None, t_loot_table = None \<rparr>"

definition example_collection :: "template list" where
  "example_collection =
     [example_template ''E_rat'' 1, example_template ''D_wolf'' 12,
      example_template ''E_bat'' 2, example_template ''E_ogre'' 30,
      example_template ''E_slime'' 1]"

text \<open>A collection in which the template \<open>E_rat\<close> is stored twice.\<close>

definition duplicate_collection :: "template list" where
  "duplicate_collection =
     [example_template ''E_rat'' 9, example_template ''E_bat'' 9,
      example_template ''E_rat'' 9]"

definition duplicate_draws :: "real stream" where
  "duplicate_draws = 0 ## 0 ## 0 ## 0 ## 0 ## 5 ## sconst 0"

definition death_draws :: "real stream" where
  "death_draws = 0.1 ## 0.9 ## sconst 0.5"

definition example_monsters :: "monster list" where
  "example_monsters =
     [make_monster ''E'' (example_template ''E_rat'' 1),
      make_monster ''E'' (example_template ''E_bat'' 2),
      make_monster ''E'' (example_template ''E_ogre'' 30)]"

definition example_result :: raid_results where
  "example_result =
     \<lparr> monsters_defeated = [''E_rat'', ''E_bat''],
       monsters_defeated_by = [''E_ogre''],
       total_rewards = \<lparr> reward_gold = 20, reward_experience = 30 \<rparr>,
       battles =
         [\<lparr> player_won = True, battle_damage_taken = 0,
            battle_rewards = \<lparr> reward_gold = 10, reward_experience = 15 \<rparr>,
            battle_monster_id = ''E_rat'' \<rparr>,
          \<lparr> player_won = True, battle_damage_taken = 0,
            battle_rewards = \<lparr> reward_gold = 10, reward_experience = 15 \<rparr>,
            battle_monster_id = ''E_bat'' \<rparr>,
          \<lparr> player_won = False, battle_damage_taken = 5,
            battle_rewards = \<lparr> reward_gold = 0, reward_experience = 0 \<rparr>,
            battle_monster_id = ''E_ogre'' \<rparr>],
       raid_complete = False, player_survived = True, damage_taken = 5 \<rparr>"

section \<open>Auxiliary facts\<close>

subsection \<open>The library calls\<close>

lemma randint_range:
  assumes "a \<le> b"
  shows "\<exists>n. randint a b raw = Inr n \<and> a \<le> n \<and> n \<le> b"
proof -
  have "0 < b - a + 1" using assms by simp
  then have "0 \<le> raw mod (b - a + 1)" and "raw mod (b - a + 1) < b - a + 1"
    by (rule pos_mod_sign, rule pos_mod_bound)
  then show ?thesis using assms by (simp add: randint_def)
qed

lemma randint_onto:
  assumes "a \<le> n" and "n \<le> b"
  shows "randint a b (n - a) = Inr n"
  using assms by (simp add: randint_def)

lemma remove_position:
  assumes "distinct pool" and "j < length pool"
  shows "distinct (take j pool @ drop (Suc j) pool)"
    and "set (take j pool @ drop (Suc j) pool) = set pool - {pool ! j}"
proof -
  have split: "pool = take j pool @ pool ! j # drop (Suc j) pool"
    using assms(2) by (rule id_take_nth_drop)
  have d: "distinct (take j pool @ pool ! j # drop (Suc j) pool)"
    by (subst split[symmetric]) (rule assms(1))
  show "distinct (take j pool @ drop (Suc j) pool)" using d by simp
  have "set pool = set (take j pool @ pool ! j # drop (Suc j) pool)"
    by (rule arg_cong[OF split])
  then have s: "set pool = insert (pool ! j) (set (take j pool @ drop (Suc j) pool))"
    by simp
  have "pool ! j \<notin> set (take j pool @ drop (Suc j) pool)" using d by simp
  then show "set (take j pool @ drop (Suc j) pool) = set pool - {pool ! j}"
    unfolding s by simp
qed

lemma sample_positions_props:
  assumes "distinct pool" and "k \<le> length pool"
  shows "length (sample_positions pool k raws) = k
       \<and> distinct (sample_positions pool k raws)
       \<and> set (sample_positions pool k raws) \<subseteq> set pool"
  using assms
proof (induction k arbitrary: pool raws)
  case 0
  then show ?case by simp
next
  case (Suc k)
  then have ne: "pool \<noteq> []" by auto
  let ?j = "shd raws mod length pool"
  let ?rest = "take ?j pool @ drop (Suc ?j) pool"
  have j: "?j < length pool" using ne by simp
  note r = remove_position[OF Suc.prems(1) j]
  have "length ?rest = length pool - 1" using j by simp
  then have "k \<le> length ?rest" using Suc.prems(2) by simp
  from Suc.IH[OF r(1) this, of "stl raws"]
  have ih: "length (sample_positions ?rest k (stl raws)) = k"
    "distinct (sample_positions ?rest k (stl raws))"
    "set (sample_positions ?rest k (stl raws)) \<subseteq> set ?rest"
    by simp_all
  have notin: "pool ! ?j \<notin> set (sample_positions ?rest k (stl raws))"
    using ih(3) r(2) by auto
  have sub: "set (sample_positions ?rest k (stl raws)) \<subseteq> set pool"
    using ih(3) r(2) by auto
  have mem: "pool ! ?j \<in> set pool" using j by simp
  show ?case using ne ih(1,2) notin sub mem by (simp add: Let_def)
qed

lemma sample_positions_onto:
  assumes "distinct pool" and "distinct ps" and "set ps \<subseteq> set pool"
  shows "\<exists>raws. sample_positions pool (length ps) raws = ps"
  using assms
proof (induction ps arbitrary: pool)
  case Nil
  then show ?case by simp
next
  case (Cons p ps)
  then have "p \<in> set pool" by simp
  then obtain j where j: "j < length pool" "pool ! j = p"
    by (auto simp: in_set_conv_nth)
  let ?rest = "take j pool @ drop (Suc j) pool"
  note r = remove_position[OF Cons.prems(1) j(1)]
  have "set ps \<subseteq> set ?rest" using Cons.prems(2,3) r(2) j(2) by auto
  moreover have "distinct ps" using Cons.prems(2) by simp
  ultimately obtain raws where raws: "sample_positions ?rest (length ps) raws = ps"
    using Cons.IH[OF r(1)] by blast
  have ne: "pool \<noteq> []" using j(1) by auto
  have "sample_positions pool (length (p # ps)) (j ## raws) = p # ps"
    using ne j raws by (simp add: Let_def)
  then show ?case by blast
qed

lemma sample_positions_numeral:
  "sample_positions pool (numeral n) raws =
     (if pool = [] then []
      else (let j = shd raws mod length pool
            in pool ! j
               # sample_positions (take j pool @ drop (Suc j) pool) (pred_numeral n) (stl raws)))"
  by (simp add: numeral_eq_Suc)

subsection \<open>Evaluation of the example data\<close>

lemmas eval_defs =
  process_raid_def generate_monsters_def current_rarity_def rarity_ranges_def
  find_monsters_def randint_def sample_def sample_positions_numeral make_monster_def
  get_default_def
  process_battle_def calculate_power_score_def stat_subscript_def equipment_bonus_def
  item_power_def rarity_multiplier_def rarity_multipliers_def initial_results_def Let_def
  example_player_def example_template_def example_collection_def duplicate_collection_def

lemma example_selection:
  "generate_monsters example_collection 1 5 0 (sconst 0) =
     Inr [make_monster ''E'' (example_template ''E_rat'' 1),
          make_monster ''E'' (example_template ''E_bat'' 2),
          make_monster ''E'' (example_template ''E_ogre'' 30)]"
  by (simp add: generate_monsters_def current_rarity_def rarity_ranges_def
        find_monsters_def randint_def sample_def sample_positions_numeral
        example_collection_def example_template_def Let_def)

lemma example_base: "base_score (PlayerEntity example_player) True = Inr 66"
  by (simp add: example_player_def stat_subscript_def equipment_bonus_def item_power_def)

lemma example_raid:
  "process_raid example_collection example_player 1 0 (sconst 0) (sconst 0) =
     (Inr \<lparr> monsters_defeated = [''E_rat'', ''E_bat''],
            monsters_defeated_by = [''E_ogre''],
            total_rewards = \<lparr> reward_gold = 20, reward_experience = 30 \<rparr>,
            battles =
              [\<lparr> player_won = True, battle_damage_taken = 0,
                 battle_rewards = \<lparr> reward_gold = 10, reward_experience = 15 \<rparr>,
                 battle_monster_id = ''E_rat'' \<rparr>,
               \<lparr> player_won = True, battle_damage_taken = 0,
                 battle_rewards = \<lparr> reward_gold = 10, reward_experience = 15 \<rparr>,
                 battle_monster_id = ''E_bat'' \<rparr>,
               \<lparr> player_won = False, battle_damage_taken = 5,
                 battle_rewards = \<lparr> reward_gold = 0, reward_experience = 0 \<rparr>,
                 battle_monster_id = ''E_ogre'' \<rparr>],
            raid_complete = False, player_survived = True, damage_taken = 5 \<rparr>,
      example_player\<lparr>current_hp := 95\<rparr>, sconst 0)"
  by (simp add: eval_defs)

lemma example_selection_level:
  "generate_monsters example_collection 1 (level example_player) 0 (sconst 0) = Inr example_monsters"
  using example_selection by (simp add: example_monsters_def example_player_def)

lemma example_raid_result:
  "process_raid example_collection example_player 1 0 (sconst 0) (sconst 0) =
     (Inr example_result, example_player\<lparr>current_hp := 95\<rparr>, sconst 0)"
  using example_raid by (simp add: example_result_def)

lemma example_death:
  "handle_player_death example_player death_draws =
     ([(''weapon'', [(''power'', 3)])],
      example_player\<lparr>equipment := [(''weapon'', None), (''armor'', None),
                                   (''ring'', Some [(''power'', 1)])],
                     gold := 80, current_hp := 10, current_party_id := None\<rparr>,
      sconst 0.5)"
  by (simp add: handle_player_death_def example_player_def death_draws_def py_int_def Let_def)

subsection \<open>Rounding to double precision\<close>

lemma round_half_even_of_int [simp]: "round_half_even (of_int n) = n"
  by (simp add: round_half_even_def)

lemma round_half_even_numeral [simp]: "round_half_even (numeral n) = numeral n"
  using round_half_even_of_int[of "numeral n"] by (simp del: round_half_even_of_int)

lemma round_half_even_bounds:
  "\<lfloor>t\<rfloor> \<le> round_half_even t" "round_half_even t \<le> \<lfloor>t\<rfloor> + 1"
  by (simp_all add: round_half_even_def Let_def)

lemma round_half_even_mono:
  assumes "s \<le> t"
  shows "round_half_even s \<le> round_half_even t"
proof (cases "\<lfloor>s\<rfloor> = \<lfloor>t\<rfloor>")
  case True
  then have "s - of_int \<lfloor>s\<rfloor> \<le> t - of_int \<lfloor>t\<rfloor>" using assms by simp
  then show ?thesis using True by (auto simp: round_half_even_def Let_def)
next
  case False
  then have "\<lfloor>s\<rfloor> < \<lfloor>t\<rfloor>" using floor_mono[OF assms] by simp
  then have "round_half_even s \<le> \<lfloor>t\<rfloor>" using round_half_even_bounds(2)[of s] by simp
  then show ?thesis using round_half_even_bounds(1)[of t] by simp
qed

lemma binade:
  assumes "0 < x"
  shows "2 powr of_int \<lfloor>log 2 x\<rfloor> \<le> x" "x < 2 powr (of_int \<lfloor>log 2 x\<rfloor> + 1)"
  using floor_log_eq_powr_iff[of x 2 "\<lfloor>log 2 x\<rfloor>"] assms by simp_all

lemma round_double_binade:
  assumes "2 powr of_int k \<le> \<bar>x\<bar>" and "\<bar>x\<bar> < 2 powr (of_int k + 1)"
  shows "round_double x =
           of_int (round_half_even (x / 2 powr of_int (k - 52))) * 2 powr of_int (k - 52)"
proof -
  have pos: "0 < \<bar>x\<bar>" using assms(1) by (smt (verit) powr_gt_zero)
  then have "\<lfloor>log 2 \<bar>x\<bar>\<rfloor> = k"
    using assms floor_log_eq_powr_iff[of "\<bar>x\<bar>" 2 k] by simp
  then show ?thesis using pos by (simp add: round_double_def ulp_exponent_def)
qed

lemma round_double_range:
  assumes "2 powr of_int k \<le> x" and "x < 2 powr (of_int k + 1)"
  shows "2 powr of_int k \<le> round_double x" "round_double x \<le> 2 powr (of_int k + 1)"
proof -
  let ?u = "(2::real) powr of_int (k - 52)"
  have xpos: "0 < x" using assms(1) by (smt (verit) powr_gt_zero)
  have u: "0 < ?u" by simp
  have u52: "?u = 2 powr of_int k / 2 ^ 52" by (simp add: powr_diff)
  have lo: "2 powr of_int k = 2 ^ 52 * ?u" unfolding u52 by simp
  have hi: "2 powr (of_int k + 1) = 2 ^ 53 * ?u" unfolding u52 by (simp add: powr_add)
  have r: "round_double x = of_int (round_half_even (x / ?u)) * ?u"
    using round_double_binade[of k x] assms xpos by simp
  have "of_int (2 ^ 52) \<le> x / ?u" using assms(1) lo u by (simp add: pos_le_divide_eq)
  then have "round_half_even (of_int (2 ^ 52)) \<le> round_half_even (x / ?u)"
    by (rule round_half_even_mono)
  then have "(2::int) ^ 52 \<le> round_half_even (x / ?u)" by simp
  then have "(2::real) ^ 52 \<le> of_int (round_half_even (x / ?u))"
    by (metis of_int_le_iff of_int_numeral of_int_power)
  then show "2 powr of_int k \<le> round_double x"
    unfolding r lo using u by (simp add: mult_right_mono)
  have "x / ?u \<le> of_int (2 ^ 53)" using assms(2) hi u by (simp add: pos_divide_le_eq)
  then have "round_half_even (x / ?u) \<le> round_half_even (of_int (2 ^ 53))"
    by (rule round_half_even_mono)
  then have "round_half_even (x / ?u) \<le> (2::int) ^ 53" by simp
  then have "of_int (round_half_even (x / ?u)) \<le> (2::real) ^ 53"
    by (metis of_int_le_iff of_int_numeral of_int_power)
  then show "round_double x \<le> 2 powr (of_int k + 1)"
    unfolding r hi using u by (simp add: mult_right_mono)
qed

lemma round_double_pos:
  assumes "0 < x" shows "0 < round_double x"
proof -
  have "2 powr of_int \<lfloor>log 2 x\<rfloor> \<le> round_double x"
    using round_double_range(1)[OF binade[OF assms]] .
  then show ?thesis by (smt (verit) powr_gt_zero)
qed

lemma round_double_mono_pos:
  assumes "0 < x" and "x \<le> y"
  shows "round_double x \<le> round_double y"
proof -
  have ypos: "0 < y" using assms by simp
  let ?ex = "\<lfloor>log 2 x\<rfloor>" and ?ey = "\<lfloor>log 2 y\<rfloor>"
  have le: "?ex \<le> ?ey" using assms ypos by (intro floor_mono) simp
  show ?thesis
  proof (cases "?ex = ?ey")
    case True
    let ?u = "(2::real) powr of_int (?ey - 52)"
    have rx: "round_double x = of_int (round_half_even (x / ?u)) * ?u"
      using round_double_binade[of ?ex x] binade[OF assms(1)] assms(1) True by simp
    have ry: "round_double y = of_int (round_half_even (y / ?u)) * ?u"
      using round_double_binade[of ?ey y] binade[OF ypos] ypos by simp
    have "x / ?u \<le> y / ?u" using assms(2) by (simp add: divide_right_mono)
    then have "round_half_even (x / ?u) \<le> round_half_even (y / ?u)"
      by (rule round_half_even_mono)
    then show ?thesis unfolding rx ry by (simp add: mult_right_mono)
  next
    case False
    then have "?ex + 1 \<le> ?ey" using le by simp
    then have "real_of_int (?ex + 1) \<le> real_of_int ?ey" by (simp only: of_int_le_iff)
    then have "real_of_int ?ex + 1 \<le> real_of_int ?ey" by simp
    then have "(2::real) powr (of_int ?ex + 1) \<le> 2 powr of_int ?ey"
      by (rule powr_mono) simp
    moreover have "round_double x \<le> 2 powr (of_int ?ex + 1)"
      using round_double_range(2)[OF binade[OF assms(1)]] .
    moreover have "2 powr of_int ?ey \<le> round_double y"
      using round_double_range(1)[OF binade[OF ypos]] .
    ultimately show ?thesis by linarith
  qed
qed

lemma round_double_zero [simp]: "round_double 0 = 0"
  by (simp add: round_double_def)

lemma round_double_mono:
  assumes "0 \<le> x" and "x \<le> y"
  shows "round_double x \<le> round_double y"
proof (cases "x = 0")
  case True
  show ?thesis
  proof (cases "y = 0")
    case True
    then show ?thesis using \<open>x = 0\<close> by simp
  next
    case False
    then have "0 < y" using assms True by simp
    then show ?thesis using True round_double_pos[of y] by simp
  qed
next
  case False
  then show ?thesis using assms round_double_mono_pos by simp
qed

lemma round_double_eval:
  assumes "2 powr of_int k \<le> \<bar>x\<bar>" and "\<bar>x\<bar> < 2 powr (of_int k + 1)" and "k \<le> 52"
  shows "round_double x =
           of_int (round_half_even (x * 2 ^ nat (52 - k))) / 2 ^ nat (52 - k)"
proof -
  have "(2::real) powr of_int (k - 52) = 2 powr - of_nat (nat (52 - k))"
    using assms(3) by simp
  also have "\<dots> = 1 / 2 ^ nat (52 - k)"
    by (simp add: powr_minus_divide powr_realpow)
  finally have u: "(2::real) powr of_int (k - 52) = 1 / 2 ^ nat (52 - k)" .
  show ?thesis using round_double_binade[OF assms(1,2)] unfolding u by simp
qed

lemma round_double_1: "round_double 1 = 1"
  using round_double_eval[of 0 1] by (simp add: round_half_even_def)

lemma round_double_half: "round_double (1/2) = 1/2"
  using round_double_eval[of "-1" "1/2"] by (simp add: round_half_even_def powr_neg_one)

lemma round_double_3half: "round_double (3/2) = 3/2"
  using round_double_eval[of 0 "3/2"] by (simp add: round_half_even_def)

lemma round_double_top: "round_double (10 - 10 / 2 ^ 53) = 10 - 1 / 2 ^ 49"
  using round_double_eval[of 3 "10 - 10 / 2 ^ 53"] by (simp add: round_half_even_def)

lemma round_double_top2: "round_double (10 - 1 / 2 ^ 49) = 10 - 1 / 2 ^ 49"
  using round_double_eval[of 3 "10 - 1 / 2 ^ 49"] by (simp add: round_half_even_def)

lemma round_double_66: "round_double 66 = 66"
  using round_double_eval[of 6 66] by (simp add: round_half_even_def)

lemma round_double_99: "round_double 99 = 99"
  using round_double_eval[of 6 99] by (simp add: round_half_even_def)

lemma random_random_range:
  "0 \<le> random_random raw" "random_random raw \<le> 1 - 1 / 2 ^ 53"
proof -
  show "0 \<le> random_random raw" by (simp add: random_random_def)
  have "raw mod 2 ^ 53 < (2::nat) ^ 53" by simp
  then have "raw mod 2 ^ 53 \<le> (2::nat) ^ 53 - 1" by linarith
  then have "real (raw mod 2 ^ 53) \<le> real ((2::nat) ^ 53 - 1)" by (simp only: of_nat_le_iff)
  also have "\<dots> = 2 ^ 53 - 1" by simp
  finally have "real (raw mod 2 ^ 53) / 2 ^ 53 \<le> (2 ^ 53 - 1) / 2 ^ 53"
    by (simp add: divide_right_mono)
  then show "random_random raw \<le> 1 - 1 / 2 ^ 53"
    by (simp add: random_random_def diff_divide_distrib)
qed

lemma uniform_0_10_range:
  "0 \<le> uniform 0 10 (random_random raw)" "uniform 0 10 (random_random raw) \<le> 10 - 1 / 2 ^ 49"
proof -
  let ?u = "random_random raw"
  note r = random_random_range[of raw]
  have a: "0 \<le> round_double (10 * ?u)"
    using round_double_mono[of 0 "10 * ?u"] r(1) by simp
  have "10 * ?u \<le> 10 - 10 / 2 ^ 53" using r(2) by simp
  then have b: "round_double (10 * ?u) \<le> 10 - 1 / 2 ^ 49"
    using round_double_mono[of "10 * ?u" "10 - 10 / 2 ^ 53"] r(1) round_double_top by simp
  have u: "uniform 0 10 ?u = round_double (round_double (10 * ?u))"
    by (simp add: uniform_def)
  show "0 \<le> uniform 0 10 ?u"
    unfolding u using round_double_mono[of 0 "round_double (10 * ?u)"] a by simp
  show "uniform 0 10 ?u \<le> 10 - 1 / 2 ^ 49"
    unfolding u using round_double_mono[OF a b] round_double_top2 by simp
qed

lemma mindset_factor_range:
  assumes "0 \<le> m" and "m < 10"
  shows "1 \<le> round_double (1 + round_double (m / 20))"
    and "round_double (1 + round_double (m / 20)) \<le> 3 / 2"
proof -
  have q0: "0 \<le> round_double (m / 20)"
    using round_double_mono[of 0 "m / 20"] assms(1) by simp
  have "m / 20 \<le> 1 / 2" using assms(2) by simp
  then have q1: "round_double (m / 20) \<le> 1 / 2"
    using round_double_mono[of "m / 20" "1 / 2"] assms(1) round_double_half by simp
  show "1 \<le> round_double (1 + round_double (m / 20))"
    using round_double_mono[of 1 "1 + round_double (m / 20)"] q0 round_double_1 by simp
  have "1 + round_double (m / 20) \<le> 3 / 2" using q1 by simp
  then show "round_double (1 + round_double (m / 20)) \<le> 3 / 2"
    using round_double_mono[of "1 + round_double (m / 20)" "3 / 2"] q0 round_double_3half
    by simp
qed

lemma top_draw: "uniform 0 10 (random_random 9007199254740991) = 10 - 1 / 2 ^ 49"
proof -
  have u: "10 * random_random 9007199254740991 = 10 - 10 / 2 ^ 53"
    by (simp add: random_random_def)
  have "uniform 0 10 (random_random 9007199254740991)
          = round_double (round_double (10 * random_random 9007199254740991))"
    by (simp add: uniform_def)
  also have "\<dots> = round_double (round_double (10 - 10 / 2 ^ 53))" by (simp only: u)
  also have "\<dots> = round_double (10 - 1 / 2 ^ 49)" by (simp only: round_double_top)
  also have "\<dots> = 10 - 1 / 2 ^ 49" by (rule round_double_top2)
  finally show ?thesis .
qed

lemma top_quotient: "round_double ((10 - 1 / 2 ^ 49) / 20) = 1 / 2 - 1 / 2 ^ 53"
  using round_double_eval[of "-2" "(10 - 1 / 2 ^ 49) / 20"]
  by (simp add: round_half_even_def powr_neg_numeral)

lemma top_factor: "round_double (1 + (1 / 2 - 1 / 2 ^ 53)) = 3 / 2"
  using round_double_eval[of 0 "1 + (1 / 2 - 1 / 2 ^ 53)"]
  by (simp add: round_half_even_def)

lemma top_score: "final_score_double 66 9007199254740991 = 99"
proof -
  have "final_score_double 66 9007199254740991
          = round_double (66 * round_double (1 + round_double ((10 - 1 / 2 ^ 49) / 20)))"
    unfolding final_score_double_def Let_def top_draw ..
  also have "\<dots> = round_double (66 * (3 / 2))"
    by (simp only: top_quotient top_factor)
  also have "\<dots> = round_double 99" by simp
  also have "\<dots> = 99" by (rule round_double_99)
  finally show ?thesis .
qed

subsection \<open>Lists\<close>

lemma filter_won_prefix:
  "list_all P (butlast xs) \<Longrightarrow>
     filter P xs = (if xs \<noteq> [] \<and> \<not> P (last xs) then butlast xs else xs)"
  by (induction xs) (auto simp: list_all_iff)

lemma lost_at_most_once:
  assumes "list_all P (butlast xs)"
  shows "length (filter (\<lambda>x. \<not> P x) xs) \<le> 1"
proof (cases xs rule: rev_cases)
  case Nil
  then show ?thesis by simp
next
  case (snoc ys y)
  then have "filter (\<lambda>x. \<not> P x) ys = []"
    using assms by (simp add: list_all_iff filter_empty_conv)
  then show ?thesis using snoc by simp
qed

lemma distinct_prefix_covers:
  assumes "distinct xs" and "n \<le> length xs" and "set xs \<subseteq> set (take n xs)"
  shows "n = length xs"
proof -
  have "card (set xs) \<le> card (set (take n xs))"
    using assms(3) by (intro card_mono) simp_all
  moreover have "card (set xs) = length xs" using assms(1) by (rule distinct_card)
  moreover have "card (set (take n xs)) = n"
    using assms(1,2) by (simp add: distinct_card)
  ultimately show ?thesis using assms(2) by simp
qed

subsection \<open>One battle\<close>

lemma monster_score_returns:
  "\<exists>mp. calculate_power_score (MonsterEntity m) False rng = (Inr mp, stl rng)"
  by (simp add: calculate_power_score_def Let_def)

lemma process_battle_shape:
  assumes "process_battle p m rng = (Inr b, rng1)"
  shows "battle_of m b"
  using assms
  by (auto simp: process_battle_def battle_of_def Let_def split: prod.splits sum.splits)

lemma battle_ids_prefix:
  "list_all2 battle_of ms bs \<Longrightarrow> map battle_monster_id bs = map monster_id ms"
  by (induction rule: list_all2_induct) (simp_all add: battle_of_def)

subsection \<open>The raid loop\<close>

text \<open>
  An exception leaves the loop before any store into the player; a normal exit is
  described by the list \<open>bs\<close> of the battles it resolved.
\<close>

lemma raid_loop_error_frame:
  "raid_loop ms p rr rng = (Inl e, p', rng') \<Longrightarrow> p' = p"
proof (induction ms arbitrary: rr rng)
  case Nil
  then show ?case by simp
next
  case (Cons m ms)
  then show ?case
    by (auto simp: Let_def split: if_splits prod.splits sum.splits)
qed

lemma raid_loop_trace:
  "raid_loop ms p rr rng = (Inr rr', p', rng') \<Longrightarrow>
   \<exists>bs. battles rr' = battles rr @ bs
      \<and> length bs \<le> length ms
      \<and> list_all2 battle_of (take (length bs) ms) bs
      \<and> list_all player_won (butlast bs)
      \<and> monsters_defeated rr' =
          monsters_defeated rr @ map battle_monster_id (filter player_won bs)
      \<and> monsters_defeated_by rr' =
          monsters_defeated_by rr @ map battle_monster_id (filter (\<lambda>b. \<not> player_won b) bs)
      \<and> damage_taken rr' = damage_taken rr + sum_list (map battle_damage_taken bs)
      \<and> p' = p\<lparr>current_hp := current_hp p - real_of_int (sum_list (map battle_damage_taken bs))\<rparr>
      \<and> (current_hp p \<le> 0 \<longrightarrow> bs = [])
      \<and> (list_all player_won bs \<and> length bs < length ms \<longrightarrow> current_hp p \<le> 0)
      \<and> player_survived rr' = (player_survived rr \<and> \<not> (current_hp p \<le> 0 \<and> ms \<noteq> []))
      \<and> raid_complete rr' = raid_complete rr"
proof (induction ms arbitrary: rr rng)
  case Nil
  then show ?case by auto
next
  case (Cons m ms)
  show ?case
  proof (cases "current_hp p \<le> 0")
    case True
    with Cons.prems show ?thesis by auto
  next
    case False
    then obtain b rng1 where pb: "process_battle p m rng = (Inr b, rng1)"
      using Cons.prems by (auto split: prod.splits sum.splits)
    have bo: "battle_of m b" using pb by (rule process_battle_shape)
    show ?thesis
    proof (cases "player_won b")
      case True
      let ?rr2 = "rr\<lparr>battles := battles rr @ [b],
                     monsters_defeated := monsters_defeated rr @ [monster_id m],
                     total_rewards :=
                       \<lparr> reward_gold = reward_gold (total_rewards rr)
                                        + reward_gold (battle_rewards b),
                         reward_experience = reward_experience (total_rewards rr)
                                        + reward_experience (battle_rewards b) \<rparr>\<rparr>"
      have rec: "raid_loop ms p ?rr2 rng1 = (Inr rr', p', rng')"
        using Cons.prems False pb True by (simp add: Let_def)
      from Cons.IH[OF rec] obtain bs where bs:
        "battles rr' = battles ?rr2 @ bs"
        "length bs \<le> length ms"
        "list_all2 battle_of (take (length bs) ms) bs"
        "list_all player_won (butlast bs)"
        "monsters_defeated rr' =
          monsters_defeated ?rr2 @ map battle_monster_id (filter player_won bs)"
        "monsters_defeated_by rr' =
          monsters_defeated_by ?rr2 @ map battle_monster_id (filter (\<lambda>b. \<not> player_won b) bs)"
        "damage_taken rr' = damage_taken ?rr2 + sum_list (map battle_damage_taken bs)"
        "p' = p\<lparr>current_hp := current_hp p - real_of_int (sum_list (map battle_damage_taken bs))\<rparr>"
        "list_all player_won bs \<and> length bs < length ms \<longrightarrow> current_hp p \<le> 0"
        "player_survived rr' = (player_survived ?rr2 \<and> \<not> (current_hp p \<le> 0 \<and> ms \<noteq> []))"
        "raid_complete rr' = raid_complete ?rr2"
        by blast
      have d0: "battle_damage_taken b = 0" and idb: "battle_monster_id b = monster_id m"
        using bo True by (simp_all add: battle_of_def)
      show ?thesis
      proof (intro exI[of _ "b # bs"] conjI)
        show "battles rr' = battles rr @ b # bs" using bs(1) by simp
        show "length (b # bs) \<le> length (m # ms)" using bs(2) by simp
        show "list_all2 battle_of (take (length (b # bs)) (m # ms)) (b # bs)"
          using bs(3) bo by simp
        show "list_all player_won (butlast (b # bs))" using bs(4) True by simp
        show "monsters_defeated rr' =
                monsters_defeated rr @ map battle_monster_id (filter player_won (b # bs))"
          using bs(5) True idb by simp
        show "monsters_defeated_by rr' =
                monsters_defeated_by rr
                  @ map battle_monster_id (filter (\<lambda>b. \<not> player_won b) (b # bs))"
          using bs(6) True by simp
        show "damage_taken rr' = damage_taken rr + sum_list (map battle_damage_taken (b # bs))"
          using bs(7) d0 by simp
        show "p' = p\<lparr>current_hp :=
                      current_hp p - real_of_int (sum_list (map battle_damage_taken (b # bs)))\<rparr>"
          using bs(8) d0 by simp
        show "current_hp p \<le> 0 \<longrightarrow> b # bs = []" using False by simp
        show "list_all player_won (b # bs) \<and> length (b # bs) < length (m # ms)
                \<longrightarrow> current_hp p \<le> 0"
          using bs(9) by simp
        show "player_survived rr' =
                (player_survived rr \<and> \<not> (current_hp p \<le> 0 \<and> m # ms \<noteq> []))"
          using bs(10) False by simp
        show "raid_complete rr' = raid_complete rr" using bs(11) by simp
      qed
    next
      case lost: False
      have res: "rr' = rr\<lparr>battles := battles rr @ [b],
                         monsters_defeated_by := monsters_defeated_by rr @ [monster_id m],
                         damage_taken := damage_taken rr + battle_damage_taken b\<rparr>"
        and p': "p' = p\<lparr>current_hp := current_hp p - real_of_int (battle_damage_taken b)\<rparr>"
        using Cons.prems False pb lost by (simp_all add: Let_def)
      have idb: "battle_monster_id b = monster_id m"
        using bo by (simp add: battle_of_def)
      show ?thesis
        by (rule exI[of _ "[b]"]) (simp add: res p' lost bo idb False)
    qed
  qed
qed

lemma process_raid_error_frame:
  assumes "process_raid collection p tower_level raw raws rng = (Inl e, p', rng')"
  shows "p' = p"
  using assms
  by (auto simp: process_raid_def split: sum.splits prod.splits dest: raid_loop_error_frame)

lemma process_raid_loop:
  assumes "generate_monsters collection tower_level (level p) raw raws = Inr monsters"
      and "process_raid collection p tower_level raw raws rng = (Inr rr, p', rng')"
  shows "\<exists>rr0. raid_loop monsters p initial_results rng = (Inr rr0, p', rng')
           \<and> rr = rr0\<lparr>raid_complete := (length (monsters_defeated rr0) = length monsters)\<rparr>"
  using assms by (auto simp: process_raid_def split: prod.splits sum.splits)

lemma process_raid_trace:
  assumes sel: "generate_monsters collection tower_level (level p) raw raws = Inr monsters"
      and run: "process_raid collection p tower_level raw raws rng = (Inr rr, p', rng')"
  shows "list_all2 battle_of (take (length (battles rr)) monsters) (battles rr)"
    and "length (battles rr) \<le> length monsters"
    and "list_all player_won (butlast (battles rr))"
    and "monsters_defeated rr = map battle_monster_id (filter player_won (battles rr))"
    and "monsters_defeated_by rr =
           map battle_monster_id (filter (\<lambda>b. \<not> player_won b) (battles rr))"
    and "damage_taken rr = sum_list (map battle_damage_taken (battles rr))"
    and "p' = p\<lparr>current_hp := current_hp p - real_of_int (damage_taken rr)\<rparr>"
    and "raid_complete rr \<longleftrightarrow> length (monsters_defeated rr) = length monsters"
proof -
  from process_raid_loop[OF sel run] obtain rr0 where
    loop: "raid_loop monsters p initial_results rng = (Inr rr0, p', rng')" and
    rr: "rr = rr0\<lparr>raid_complete := (length (monsters_defeated rr0) = length monsters)\<rparr>"
    by blast
  from raid_loop_trace[OF loop] obtain bs where bs:
    "battles rr0 = battles initial_results @ bs"
    "length bs \<le> length monsters"
    "list_all2 battle_of (take (length bs) monsters) bs"
    "list_all player_won (butlast bs)"
    "monsters_defeated rr0 =
       monsters_defeated initial_results @ map battle_monster_id (filter player_won bs)"
    "monsters_defeated_by rr0 =
       monsters_defeated_by initial_results
         @ map battle_monster_id (filter (\<lambda>b. \<not> player_won b) bs)"
    "damage_taken rr0 = damage_taken initial_results + sum_list (map battle_damage_taken bs)"
    "p' = p\<lparr>current_hp := current_hp p - real_of_int (sum_list (map battle_damage_taken bs))\<rparr>"
    by blast
  have b: "battles rr = bs" using bs(1) rr by (simp add: initial_results_def)
  show "list_all2 battle_of (take (length (battles rr)) monsters) (battles rr)"
    using bs(3) b by simp
  show "length (battles rr) \<le> length monsters" using bs(2) b by simp
  show "list_all player_won (butlast (battles rr))" using bs(4) b by simp
  show "monsters_defeated rr = map battle_monster_id (filter player_won (battles rr))"
    using bs(5) b rr by (simp add: initial_results_def)
  show "monsters_defeated_by rr =
           map battle_monster_id (filter (\<lambda>b. \<not> player_won b) (battles rr))"
    using bs(6) b rr by (simp add: initial_results_def)
  show dt: "damage_taken rr = sum_list (map battle_damage_taken (battles rr))"
    using bs(7) b rr by (simp add: initial_results_def)
  show "p' = p\<lparr>current_hp := current_hp p - real_of_int (damage_taken rr)\<rparr>"
    using bs(8) dt b by simp
  show "raid_complete rr \<longleftrightarrow> length (monsters_defeated rr) = length monsters"
    using rr by simp
qed

lemma defeated_is_prefix:
  assumes sel: "generate_monsters collection tower_level (level p) raw raws = Inr monsters"
      and run: "process_raid collection p tower_level raw raws rng = (Inr rr, p', rng')"
  shows "monsters_defeated rr =
           take (length (monsters_defeated rr)) (map monster_id monsters)"
    and "length (monsters_defeated rr) \<le> length monsters"
proof -
  note t = process_raid_trace[OF sel run]
  let ?bs = "battles rr"
  have ids: "map battle_monster_id ?bs = map monster_id (take (length ?bs) monsters)"
    using t(1) by (rule battle_ids_prefix)
  have f: "filter player_won ?bs =
             (if ?bs \<noteq> [] \<and> \<not> player_won (last ?bs) then butlast ?bs else ?bs)"
    using t(3) by (rule filter_won_prefix)
  have "filter player_won ?bs = take (length (filter player_won ?bs)) ?bs"
    using f by (auto simp: butlast_conv_take)
  then have "map battle_monster_id (filter player_won ?bs) =
               take (length (filter player_won ?bs)) (map battle_monster_id ?bs)"
    by (metis take_map)
  also have "\<dots> = take (length (filter player_won ?bs)) (map monster_id monsters)"
    using ids by (simp add: take_map[symmetric] min_def)
  finally have md: "monsters_defeated rr =
           take (length (filter player_won ?bs)) (map monster_id monsters)"
    using t(4) by simp
  have n: "length (monsters_defeated rr) = length (filter player_won ?bs)"
    using t(4) by simp
  show "monsters_defeated rr =
           take (length (monsters_defeated rr)) (map monster_id monsters)"
    unfolding n by (rule md)
  have "length (filter player_won ?bs) \<le> length monsters"
    using t(2) by (rule le_trans[OF length_filter_le])
  then show "length (monsters_defeated rr) \<le> length monsters"
    using n by simp
qed

subsection \<open>The drop loop of the defeat handler\<close>

lemma drop_loop_effect:
  "drop_loop entries dropped eq rng = (dropped', eq', rng') \<Longrightarrow>
     \<exists>new. dropped' = dropped @ new
         \<and> (\<forall>slot. map_of eq' slot =
               (if slot \<in> fst ` set new then Some None else map_of eq slot))"
proof (induction entries arbitrary: dropped eq rng)
  case Nil
  then show ?case by simp
next
  case (Cons entry entries)
  obtain slot it where entry: "entry = (slot, it)" by (cases entry)
  show ?case
  proof (cases "truthy it \<and> shd rng < 0.3")
    case True
    then have "drop_loop entries (dropped @ [(slot, the it)]) (AList.update slot None eq)
                 (stl rng) = (dropped', eq', rng')"
      using Cons.prems entry by simp
    from Cons.IH[OF this] obtain new where
      n1: "dropped' = (dropped @ [(slot, the it)]) @ new" and
      n2: "\<forall>s. map_of eq' s =
             (if s \<in> fst ` set new then Some None else map_of (AList.update slot None eq) s)"
      by blast
    show ?thesis
    proof (intro exI[of _ "(slot, the it) # new"] conjI allI)
      show "dropped' = dropped @ (slot, the it) # new" using n1 by simp
      fix s
      show "map_of eq' s =
              (if s \<in> fst ` set ((slot, the it) # new) then Some None else map_of eq s)"
        using n2 by (simp add: update_conv')
    qed
  next
    case False
    then have "drop_loop entries dropped eq (stl rng) = (dropped', eq', rng')
             \<or> drop_loop entries dropped eq rng = (dropped', eq', rng')"
      using Cons.prems entry by (auto split: if_splits)
    then show ?thesis using Cons.IH by blast
  qed
qed

section \<open>The claims\<close>

subsection \<open>Tier mapping\<close>

text \<open>
  Claim C1 (as amended).  The tier mapping of the monster selector takes the first range,
  in the order E, D, C, B, A, S, whose upper bound is at least the tower level: levels up
  to 10 give E, up to 20 D, up to 30 C, up to 40 B, up to 50 A and up to 60 S.  A level
  above 60 matches no range and keeps the initial value of \<open>current_rarity\<close>, which is
  E; in particular level 61 selects E, not S.
\<close>

theorem current_rarity_closed_form:
  "current_rarity tower_level =
     (if tower_level \<le> 10 then ''E''
      else if tower_level \<le> 20 then ''D''
      else if tower_level \<le> 30 then ''C''
      else if tower_level \<le> 40 then ''B''
      else if tower_level \<le> 50 then ''A''
      else if tower_level \<le> 60 then ''S''
      else ''E'')"
  by (simp add: current_rarity_def rarity_ranges_def)

theorem current_rarity_closed_form_witness:
  "current_rarity 10 = ''E'' \<and> current_rarity 11 = ''D'' \<and> current_rarity 25 = ''C''
   \<and> current_rarity 40 = ''B'' \<and> current_rarity 50 = ''A'' \<and> current_rarity 60 = ''S''"
  using current_rarity_closed_form [of 10] current_rarity_closed_form [of 11]
    current_rarity_closed_form [of 25] current_rarity_closed_form [of 40]
    current_rarity_closed_form [of 50] current_rarity_closed_form [of 60]
  by simp

text \<open>The claim as stated fails at level 61.\<close>

theorem current_rarity_61_counterexample:
  "current_rarity 61 = ''E'' \<and> current_rarity 61 \<noteq> ''S''"
  by (simp add: current_rarity_def rarity_ranges_def)

subsection \<open>Power score\<close>

text \<open>
  Claim C2 (as amended).  For a player entity, \<open>calculate_power_score\<close> raises KeyError
  for the first of the keys strength, agility, vitality (in this order) that is absent
  from the stats mapping, and returns normally exactly when all three are present; the
  score is then the weighted sum of the three stats, five times the level and the
  equipment bonus, times the mindset factor.  An absent key is not read as zero.
\<close>

theorem calculate_power_score_player:
  "fst (calculate_power_score (PlayerEntity p) True rng) =
     (if stats p ''strength'' = None then Inl (KeyError ''strength'')
      else if stats p ''agility'' = None then Inl (KeyError ''agility'')
      else if stats p ''vitality'' = None then Inl (KeyError ''vitality'')
      else Inr ((real_of_int (the (stats p ''strength'')) * 1.5
                 + real_of_int (the (stats p ''agility'')) * 1.2
                 + real_of_int (the (stats p ''vitality'')) * 1.0
                 + real_of_int (level p * 5)
                 + equipment_bonus (equipment p))
                * (1 + shd rng / 20)))"
  by (auto simp: calculate_power_score_def stat_subscript_def Let_def split: option.splits)

theorem calculate_power_score_player_witness:
  "fst (calculate_power_score (PlayerEntity example_player) True (sconst 0)) = Inr 66"
  using calculate_power_score_player [of example_player "sconst 0"]
  by (simp add: example_player_def equipment_bonus_def item_power_def)

text \<open>The claim as stated fails for a player whose stats lack the key strength.\<close>

theorem missing_stat_counterexample:
  "calculate_power_score (PlayerEntity no_strength_player) True (sconst 0)
     = (Inl (KeyError ''strength''), sconst 0)"
  by (simp add: calculate_power_score_def no_strength_player_def stat_subscript_def)

text \<open>
  Claim C9 (as amended).  For every float \<open>b\<close> that is the base score of an entity, the
  returned score is \<open>b * (1 + m / 20)\<close> evaluated in double precision, where \<open>m\<close> is
  the value \<open>random.uniform(0, 10)\<close> draws and \<open>0 \<le> m < 10\<close>; for \<open>b > 0\<close> it lies
  in the closed interval from \<open>b\<close> to \<open>1.5 * b\<close> (the product as a float).  The interval
  is not half-open: the upper end is reached.
\<close>

theorem final_score_double_range:
  assumes "round_double b = b" and "0 < b"
  shows "\<exists>m. m = uniform 0 10 (random_random raw) \<and> 0 \<le> m \<and> m < 10
           \<and> final_score_double b raw
               = round_double (b * round_double (1 + round_double (m / 20)))
           \<and> b \<le> final_score_double b raw
           \<and> final_score_double b raw \<le> round_double (1.5 * b)"
proof -
  let ?m = "uniform 0 10 (random_random raw)"
  let ?f = "round_double (1 + round_double (?m / 20))"
  note m = uniform_0_10_range[of raw]
  have m10: "?m < 10" using m(2) by (smt (verit) divide_pos_pos zero_less_numeral zero_less_power zero_less_one)
  note f = mindset_factor_range[OF m(1) m10]
  have fs: "final_score_double b raw = round_double (b * ?f)"
    by (simp add: final_score_double_def)
  have "b * 1 \<le> b * ?f" using f(1) assms(2) by (intro mult_left_mono) simp_all
  then have "round_double b \<le> round_double (b * ?f)"
    using round_double_mono[of b "b * ?f"] assms(2) by simp
  then have lo: "b \<le> final_score_double b raw" using assms(1) fs by simp
  have "b * ?f \<le> b * (3 / 2)" using f(2) assms(2) by (intro mult_left_mono) simp_all
  moreover have "0 \<le> b * ?f" using f(1) assms(2) by simp
  ultimately have "round_double (b * ?f) \<le> round_double (b * (3 / 2))"
    by (intro round_double_mono)
  then have hi: "final_score_double b raw \<le> round_double (1.5 * b)"
    using fs by (simp add: mult.commute)
  show ?thesis using m(1) m10 fs lo hi by blast
qed

theorem final_score_double_range_witness:
  "round_double 66 = 66 \<and> (0::real) < 66
   \<and> uniform 0 10 (random_random 0) = 0
   \<and> final_score_double 66 0 = 66
   \<and> (66::real) \<le> 66 \<and> (66::real) \<le> round_double (1.5 * 66)"
proof -
  have z: "uniform 0 10 (random_random 0) = 0" by (simp add: uniform_def random_random_def)
  have s: "final_score_double 66 0 = 66"
    by (simp add: final_score_double_def z round_double_1 round_double_66)
  show ?thesis
    using final_score_double_range[OF round_double_66, of 0] round_double_66 z s by simp
qed

text \<open>
  The claim as stated fails at the largest draw: \<open>random.uniform(0, 10)\<close> then returns
  \<open>10 - 2\<^sup>-\<^sup>4\<^sup>9\<close> (printed 9.999999999999998), the quotient rounds to
  \<open>1/2 - 2\<^sup>-\<^sup>5\<^sup>3\<close>, the sum with 1 is a tie that rounds to 1.5, and the score of base
  66 is 99, which is not below \<open>1.5 * 66\<close>.
\<close>

theorem final_score_double_counterexample:
  "round_double 66 = 66 \<and> (0::real) < 66
   \<and> uniform 0 10 (random_random 9007199254740991) < 10
   \<and> final_score_double 66 9007199254740991 = 99
   \<and> \<not> ((99::real) < 1.5 * 66)"
  by (simp add: top_draw top_score round_double_66)

subsection \<open>Battle resolution\<close>

text \<open>
  Claim C4.  When the two power scores are \<open>player_power\<close> and \<open>monster_power\<close>,
  \<open>process_battle\<close> returns a result with \<open>player_won\<close> true exactly when
  \<open>player_power > monster_power\<close> (so a tie is a loss); on a win the rewards are the
  monster's gold and experience reward and the damage taken is 0; on a loss the rewards
  are 0 and the damage taken is the monster's damage; the monster id is the monster's.
\<close>

theorem process_battle_outcome:
  assumes "calculate_power_score (PlayerEntity p) True rng = (Inr player_power, rng1)"
      and "calculate_power_score (MonsterEntity m) False rng1 = (Inr monster_power, rng2)"
  shows "\<exists>b. process_battle p m rng = (Inr b, rng2)
           \<and> (player_won b \<longleftrightarrow> player_power > monster_power)
           \<and> (player_power = monster_power \<longrightarrow> \<not> player_won b)
           \<and> (player_won b \<longrightarrow>
                 reward_gold (battle_rewards b) = gold_reward m
                 \<and> reward_experience (battle_rewards b) = experience_reward m
                 \<and> battle_damage_taken b = 0)
           \<and> (\<not> player_won b \<longrightarrow>
                 reward_gold (battle_rewards b) = 0
                 \<and> reward_experience (battle_rewards b) = 0
                 \<and> battle_damage_taken b = damage m)
           \<and> battle_monster_id b = monster_id m"
  using assms by (simp add: process_battle_def Let_def)

theorem process_battle_outcome_witness:
  "calculate_power_score (PlayerEntity example_player) True (sconst 0) = (Inr 66, sconst 0)
   \<and> calculate_power_score (MonsterEntity (make_monster ''E'' (example_template ''E_rat'' 1)))
        False (sconst 0) = (Inr 15.5, sconst 0)
   \<and> (\<exists>b. process_battle example_player (make_monster ''E'' (example_template ''E_rat'' 1))
             (sconst 0) = (Inr b, sconst 0)
          \<and> player_won b \<and> reward_gold (battle_rewards b) = 10
          \<and> battle_damage_taken b = 0 \<and> battle_monster_id b = ''E_rat'')"
proof -
  have a: "calculate_power_score (PlayerEntity example_player) True (sconst 0)
             = (Inr 66, sconst 0)"
    by (simp add: calculate_power_score_def example_base del: base_score.simps)
  have b: "calculate_power_score (MonsterEntity (make_monster ''E'' (example_template ''E_rat'' 1)))
        False (sconst 0) = (Inr 15.5, sconst 0)"
    by (simp add: calculate_power_score_def make_monster_def example_template_def
          get_default_def rarity_multiplier_def rarity_multipliers_def)
  have m: "gold_reward (make_monster ''E'' (example_template ''E_rat'' 1)) = 10"
    "monster_id (make_monster ''E'' (example_template ''E_rat'' 1)) = ''E_rat''"
    by (simp_all add: make_monster_def example_template_def get_default_def)
  show ?thesis using process_battle_outcome[OF a b] a b m by auto
qed

subsection \<open>Monster selection\<close>

text \<open>
  Claim C7 (as amended).  When the collection yields at least 3 candidates for the
  selected tier, \<open>generate_monsters\<close> returns between 3 and \<open>min 7 candidate_count\<close>
  monsters, built from pairwise distinct positions of the candidate list, each with the
  selected tier as rarity; their identifiers are pairwise distinct whenever the
  candidates' identifiers are.
\<close>

theorem generate_monsters_selection:
  assumes pot: "potential = find_monsters collection (current_rarity tower_level)"
      and three: "3 \<le> length potential"
  shows "\<exists>monsters positions.
           generate_monsters collection tower_level player_level raw raws = Inr monsters
         \<and> 3 \<le> length monsters
         \<and> length monsters \<le> min 7 (length potential)
         \<and> (\<forall>m \<in> set monsters. rarity m = current_rarity tower_level)
         \<and> monsters =
             map (\<lambda>i. make_monster (current_rarity tower_level) (potential ! i)) positions
         \<and> distinct positions \<and> (\<forall>i \<in> set positions. i < length potential)
         \<and> (distinct (map t_monster_id potential) \<longrightarrow> distinct (map monster_id monsters))"
proof -
  let ?cur = "current_rarity tower_level"
  let ?hi = "min (int (length potential)) 7"
  have "3 \<le> ?hi" using three by simp
  from randint_range[OF this, of raw] obtain num where
    num: "randint 3 ?hi raw = Inr num" and range: "3 \<le> num" "num \<le> ?hi"
    by blast
  let ?positions = "sample_positions [0..<length potential] (nat num) raws"
  let ?ms = "map (\<lambda>i. make_monster ?cur (potential ! i)) ?positions"
  have "nat num \<le> length [0..<length potential]" using range by (simp add: nat_le_iff)
  from sample_positions_props[OF distinct_upt this, of raws]
  have len: "length ?positions = nat num" and dist: "distinct ?positions"
    and inb: "\<forall>i \<in> set ?positions. i < length potential"
    by auto
  have gen: "generate_monsters collection tower_level player_level raw raws = Inr ?ms"
    using pot num range
    by (simp add: generate_monsters_def sample_def Let_def comp_def)
  have l3: "3 \<le> length ?ms" using len range(1) by simp
  have l7: "length ?ms \<le> min 7 (length potential)"
    using len range by (simp add: nat_le_iff)
  have rar: "\<forall>m \<in> set ?ms. rarity m = ?cur" by (auto simp: make_monster_def)
  have ids: "distinct (map monster_id ?ms)" if d: "distinct (map t_monster_id potential)"
  proof -
    have "inj_on (\<lambda>i. t_monster_id (potential ! i)) (set ?positions)"
    proof (rule inj_onI)
      fix i j assume "i \<in> set ?positions" "j \<in> set ?positions"
        and eq: "t_monster_id (potential ! i) = t_monster_id (potential ! j)"
      then have "i < length potential" "j < length potential" using inb by simp_all
      then show "i = j" using d eq
        by (simp add: nth_eq_iff_index_eq[of "map t_monster_id potential", symmetric])
    qed
    then have "distinct (map (\<lambda>i. t_monster_id (potential ! i)) ?positions)"
      using dist by (simp add: distinct_map)
    then show ?thesis by (simp add: comp_def make_monster_def)
  qed
  show ?thesis using gen l3 l7 rar dist inb ids by blast
qed

theorem generate_monsters_selection_witness:
  "3 \<le> length (find_monsters example_collection (current_rarity 1))
   \<and> distinct (map t_monster_id (find_monsters example_collection (current_rarity 1)))
   \<and> (\<exists>monsters. generate_monsters example_collection 1 5 0 (sconst 0) = Inr monsters
         \<and> 3 \<le> length monsters \<and> length monsters \<le> 7
         \<and> (\<forall>m \<in> set monsters. rarity m = ''E'')
         \<and> distinct (map monster_id monsters))"
proof -
  have f: "find_monsters example_collection (current_rarity 1) =
             [example_template ''E_rat'' 1, example_template ''E_bat'' 2,
              example_template ''E_ogre'' 30, example_template ''E_slime'' 1]"
    by (simp add: find_monsters_def current_rarity_def rarity_ranges_def
          example_collection_def example_template_def)
  have r: "current_rarity 1 = ''E''" by (simp add: current_rarity_def rarity_ranges_def)
  have t: "3 \<le> length (find_monsters example_collection (current_rarity 1))"
    by (simp add: f)
  have d: "distinct (map t_monster_id (find_monsters example_collection (current_rarity 1)))"
    by (simp add: f example_template_def)
  show ?thesis
    using generate_monsters_selection[OF refl t, of 5 0 "sconst 0"] t d r by auto
qed

text \<open>
  The claim as stated, without the proviso on the candidates, fails on a collection
  that stores one identifier twice.
\<close>

theorem generate_monsters_counterexample:
  "3 \<le> length (find_monsters duplicate_collection (current_rarity 1))
   \<and> map_sum id (map monster_id) (generate_monsters duplicate_collection 1 5 0 (sconst 0))
        = Inr [''E_rat'', ''E_bat'', ''E_rat'']
   \<and> \<not> distinct [''E_rat'', ''E_bat'', ''E_rat'']"
  by (simp add: eval_defs)

text \<open>
  Claim C8.  When the query yields no candidate, \<open>generate_monsters\<close> raises (the
  ValueError of \<open>random.randint\<close> on the empty range from 3 to 0) instead of returning
  a list, and \<open>process_raid\<close> passes the exception on with the player exactly as it was
  passed in.
\<close>

theorem empty_catalog_fails:
  assumes "find_monsters collection (current_rarity tower_level) = []"
  shows "generate_monsters collection tower_level player_level raw raws = Inl ValueError
       \<and> process_raid collection p tower_level raw raws rng = (Inl ValueError, p, rng)"
  using assms by (simp add: process_raid_def generate_monsters_def randint_def Let_def)

theorem empty_catalog_fails_witness:
  "find_monsters example_collection (current_rarity 25) = []
   \<and> generate_monsters example_collection 25 5 0 (sconst 0) = Inl ValueError
   \<and> process_raid example_collection example_player 25 0 (sconst 0) (sconst 0)
       = (Inl ValueError, example_player, sconst 0)"
proof -
  have e: "find_monsters example_collection (current_rarity 25) = []"
    by (simp add: find_monsters_def current_rarity_def rarity_ranges_def
          example_collection_def example_template_def)
  show ?thesis
    using empty_catalog_fails[OF e, of 5 0 "sconst 0" example_player "sconst 0"] e by blast
qed

subsection \<open>Raid resolution\<close>

text \<open>
  Claim C3 (as amended).  In every result of \<open>process_raid\<close>: \<open>monsters_defeated_by\<close>
  has at most one entry and holds the ids of the lost battles; every battle but the
  last one resolved was won, so nothing is resolved after a loss; the battles are fought
  against a prefix of the selected monsters, in order; \<open>raid_complete\<close> is true exactly
  when \<open>monsters_defeated\<close> is the id sequence of all selected monsters; and when the
  selected ids are pairwise distinct, that is exactly when every selected monster's id
  occurs in \<open>monsters_defeated\<close>.
\<close>

theorem process_raid_invariants:
  assumes sel: "generate_monsters collection tower_level (level p) raw raws = Inr monsters"
      and run: "process_raid collection p tower_level raw raws rng = (Inr rr, p', rng')"
  shows "length (monsters_defeated_by rr) \<le> 1
       \<and> monsters_defeated_by rr =
           map battle_monster_id (filter (\<lambda>b. \<not> player_won b) (battles rr))
       \<and> list_all player_won (butlast (battles rr))
       \<and> map battle_monster_id (battles rr) =
           map monster_id (take (length (battles rr)) monsters)
       \<and> (raid_complete rr \<longleftrightarrow> monsters_defeated rr = map monster_id monsters)
       \<and> (distinct (map monster_id monsters) \<longrightarrow>
            (raid_complete rr \<longleftrightarrow>
               (\<forall>m \<in> set monsters. monster_id m \<in> set (monsters_defeated rr))))"
proof -
  note t = process_raid_trace[OF sel run]
  note d = defeated_is_prefix[OF sel run]
  have one: "length (monsters_defeated_by rr) \<le> 1"
    using lost_at_most_once[OF t(3)] t(5) by simp
  have ids: "map battle_monster_id (battles rr) =
               map monster_id (take (length (battles rr)) monsters)"
    using t(1) by (rule battle_ids_prefix)
  have complete: "raid_complete rr \<longleftrightarrow> monsters_defeated rr = map monster_id monsters"
  proof
    assume "raid_complete rr"
    then have "length (monsters_defeated rr) = length monsters" using t(8) by simp
    then show "monsters_defeated rr = map monster_id monsters" using d(1) by simp
  next
    assume "monsters_defeated rr = map monster_id monsters"
    then have "length (monsters_defeated rr) = length monsters" by simp
    then show "raid_complete rr" using t(8) by simp
  qed
  have sets: "raid_complete rr \<longleftrightarrow>
                (\<forall>m \<in> set monsters. monster_id m \<in> set (monsters_defeated rr))"
    if dist: "distinct (map monster_id monsters)"
  proof
    assume "raid_complete rr"
    then show "\<forall>m \<in> set monsters. monster_id m \<in> set (monsters_defeated rr)"
      using complete by simp
  next
    assume all: "\<forall>m \<in> set monsters. monster_id m \<in> set (monsters_defeated rr)"
    let ?ids = "map monster_id monsters"
    let ?n = "length (monsters_defeated rr)"
    have "set ?ids \<subseteq> set (monsters_defeated rr)" using all by auto
    then have "set ?ids \<subseteq> set (take ?n ?ids)" using d(1) by simp
    moreover have "?n \<le> length ?ids" using d(2) by simp
    ultimately have "?n = length ?ids" using dist by (intro distinct_prefix_covers)
    then show "raid_complete rr" using t(8) by simp
  qed
  show ?thesis using one t(5) t(3) ids complete sets by blast
qed

theorem process_raid_invariants_witness:
  "generate_monsters example_collection 1 (level example_player) 0 (sconst 0) = Inr example_monsters
   \<and> process_raid example_collection example_player 1 0 (sconst 0) (sconst 0)
       = (Inr example_result, example_player\<lparr>current_hp := 95\<rparr>, sconst 0)
   \<and> distinct (map monster_id example_monsters)
   \<and> length (monsters_defeated_by example_result) \<le> 1
   \<and> list_all player_won (butlast (battles example_result))
   \<and> (raid_complete example_result \<longleftrightarrow>
        monsters_defeated example_result = map monster_id example_monsters)
   \<and> (raid_complete example_result \<longleftrightarrow>
        (\<forall>m \<in> set example_monsters. monster_id m \<in> set (monsters_defeated example_result)))"
proof -
  have d: "distinct (map monster_id example_monsters)"
    by (simp add: example_monsters_def make_monster_def example_template_def)
  show ?thesis
    using process_raid_invariants[OF example_selection_level example_raid_result] example_selection_level
      example_raid_result d
    by blast
qed

text \<open>
  Without distinct ids the last equivalence fails: two wins followed by a loss against a
  second copy of the first monster leave every selected id in \<open>monsters_defeated\<close>
  while \<open>raid_complete\<close> is false.
\<close>

theorem raid_complete_counterexample:
  "map_sum id (map monster_id)
      (generate_monsters duplicate_collection 1 (level example_player) 0 (sconst 0))
     = Inr [''E_rat'', ''E_bat'', ''E_rat'']
   \<and> map_sum id monsters_defeated
        (fst (process_raid duplicate_collection example_player 1 0 (sconst 0) duplicate_draws))
     = Inr [''E_rat'', ''E_bat'']
   \<and> set [''E_rat'', ''E_bat'', ''E_rat''] \<subseteq> set [''E_rat'', ''E_bat'']
   \<and> map_sum id raid_complete
        (fst (process_raid duplicate_collection example_player 1 0 (sconst 0) duplicate_draws))
     = Inr False"
  by (simp add: eval_defs duplicate_draws_def)

text \<open>
  Claim C5.  If the player's current HP is at most 0 when the loop starts and at least
  one monster was selected, \<open>process_raid\<close> resolves no battle: the three sequences
  are empty, the total rewards and the damage taken are 0, \<open>player_survived\<close> and
  \<open>raid_complete\<close> are false, and the player is unchanged.
\<close>

theorem stale_hp_no_battle:
  assumes "generate_monsters collection tower_level (level p) raw raws = Inr monsters"
      and "monsters \<noteq> []"
      and "current_hp p \<le> 0"
  shows "process_raid collection p tower_level raw raws rng =
           (Inr \<lparr> monsters_defeated = [], monsters_defeated_by = [],
                  total_rewards = \<lparr> reward_gold = 0, reward_experience = 0 \<rparr>,
                  battles = [], raid_complete = False, player_survived = False,
                  damage_taken = 0 \<rparr>,
            p, rng)"
proof -
  obtain m ms where "monsters = m # ms" using assms(2) by (cases monsters) auto
  then show ?thesis
    using assms(1,3) by (simp add: process_raid_def initial_results_def)
qed

theorem stale_hp_no_battle_witness:
  "generate_monsters example_collection 1 (level (example_player\<lparr>current_hp := 0\<rparr>)) 0 (sconst 0)
     = Inr example_monsters
   \<and> example_monsters \<noteq> []
   \<and> current_hp (example_player\<lparr>current_hp := 0\<rparr>) \<le> 0
   \<and> process_raid example_collection (example_player\<lparr>current_hp := 0\<rparr>) 1 0 (sconst 0) (sconst 0) =
           (Inr \<lparr> monsters_defeated = [], monsters_defeated_by = [],
                  total_rewards = \<lparr> reward_gold = 0, reward_experience = 0 \<rparr>,
                  battles = [], raid_complete = False, player_survived = False,
                  damage_taken = 0 \<rparr>,
            example_player\<lparr>current_hp := 0\<rparr>, sconst 0)"
proof -
  have s: "generate_monsters example_collection 1 (level (example_player\<lparr>current_hp := 0\<rparr>)) 0 (sconst 0)
     = Inr example_monsters"
    using example_selection_level by simp
  have n: "example_monsters \<noteq> []" by (simp add: example_monsters_def)
  have h: "current_hp (example_player\<lparr>current_hp := 0\<rparr>) \<le> 0" by simp
  show ?thesis using stale_hp_no_battle[OF s n h, of "sconst 0"] s n h by blast
qed

text \<open>
  Claim C10.  \<open>process_battle\<close> has no store into the player or the monster (its
  embedding returns the result and the random stream only), and \<open>process_raid\<close>
  changes no player field but \<open>current_hp\<close>: level, stats, equipment, maximal HP, gold,
  experience and party membership are as passed in, also when an exception leaves the
  raid; \<open>current_hp\<close> drops by \<open>damage_taken\<close>, which is the damage of the at most one
  lost battle, and the player is unchanged when every battle was won.
\<close>

theorem process_raid_frame:
  assumes run: "process_raid collection p tower_level raw raws rng = (res, p', rng')"
  shows "level p' = level p \<and> stats p' = stats p \<and> equipment p' = equipment p
       \<and> max_hp p' = max_hp p \<and> gold p' = gold p \<and> experience p' = experience p
       \<and> current_party_id p' = current_party_id p
       \<and> p' = p\<lparr>current_hp := current_hp p'\<rparr>
       \<and> (case res of
             Inl e \<Rightarrow> p' = p
           | Inr rr \<Rightarrow>
               current_hp p' = current_hp p - real_of_int (damage_taken rr)
             \<and> damage_taken rr =
                 sum_list (map battle_damage_taken (filter (\<lambda>b. \<not> player_won b) (battles rr)))
             \<and> length (filter (\<lambda>b. \<not> player_won b) (battles rr)) \<le> 1
             \<and> (list_all player_won (battles rr) \<longrightarrow> p' = p))"
proof (cases res)
  case (Inl e)
  then have "p' = p" using run process_raid_error_frame by blast
  then show ?thesis using Inl by simp
next
  case (Inr rr)
  then obtain monsters where
    sel: "generate_monsters collection tower_level (level p) raw raws = Inr monsters"
    using run by (auto simp: process_raid_def split: sum.splits)
  have run': "process_raid collection p tower_level raw raws rng = (Inr rr, p', rng')"
    using run Inr by simp
  note t = process_raid_trace[OF sel run']
  let ?bs = "battles rr"
  have won0: "\<forall>b \<in> set ?bs. player_won b \<longrightarrow> battle_damage_taken b = 0"
    using t(1) by (auto simp: list_all2_conv_all_nth in_set_conv_nth battle_of_def)
  have split: "sum_list (map battle_damage_taken bs) =
          sum_list (map battle_damage_taken (filter (\<lambda>b. \<not> player_won b) bs))"
    if "\<forall>b \<in> set bs. player_won b \<longrightarrow> battle_damage_taken b = 0" for bs :: "battle_result list"
    using that by (induction bs) auto
  have dmg: "damage_taken rr =
          sum_list (map battle_damage_taken (filter (\<lambda>b. \<not> player_won b) ?bs))"
    using t(6) split[OF won0] by simp
  have one: "length (filter (\<lambda>b. \<not> player_won b) ?bs) \<le> 1"
    using t(3) by (rule lost_at_most_once)
  have same: "p' = p" if "list_all player_won ?bs"
  proof -
    have "filter (\<lambda>b. \<not> player_won b) ?bs = []"
      using that by (simp add: list_all_iff filter_empty_conv)
    then have "damage_taken rr = 0" using dmg by simp
    then show ?thesis using t(7) by simp
  qed
  have hp: "current_hp p' = current_hp p - real_of_int (damage_taken rr)"
    using t(7) by simp
  have fields: "level p' = level p" "stats p' = stats p" "equipment p' = equipment p"
     "max_hp p' = max_hp p" "gold p' = gold p" "experience p' = experience p"
     "current_party_id p' = current_party_id p" "p' = p\<lparr>current_hp := current_hp p'\<rparr>"
    using t(7) by simp_all
  show ?thesis using fields hp dmg one same Inr by simp
qed

theorem process_raid_frame_witness:
  "process_raid example_collection example_player 1 0 (sconst 0) (sconst 0)
       = (Inr example_result, example_player\<lparr>current_hp := 95\<rparr>, sconst 0)
   \<and> gold (example_player\<lparr>current_hp := 95\<rparr>) = gold example_player
   \<and> current_hp (example_player\<lparr>current_hp := 95\<rparr>)
       = current_hp example_player - real_of_int (damage_taken example_result)
   \<and> length (filter (\<lambda>b. \<not> player_won b) (battles example_result)) \<le> 1"
  using process_raid_frame[OF example_raid_result] example_raid_result by simp

subsection \<open>Defeat handling\<close>

text \<open>
  Claim C6.  For a player with non-negative gold, \<open>handle_player_death\<close> lowers gold by
  the floor of \<open>gold * 0.2\<close> (100 becomes 80), sets the current HP to 0.1 times the
  maximal HP, clears the party membership, leaves every slot that occurs in the returned
  list of dropped items empty, and leaves every other slot as it was.
\<close>

theorem handle_player_death_effect:
  assumes "0 \<le> gold p"
      and "handle_player_death p rng = (dropped, p', rng')"
  shows "gold p' = gold p - \<lfloor>real_of_int (gold p) * 0.2\<rfloor>
       \<and> (gold p = 100 \<longrightarrow> gold p' = 80)
       \<and> current_hp p' = 0.1 * max_hp p
       \<and> current_party_id p' = None
       \<and> (\<forall>slot \<in> fst ` set dropped. map_of (equipment p') slot = Some None)
       \<and> (\<forall>slot. slot \<notin> fst ` set dropped \<longrightarrow>
             map_of (equipment p') slot = map_of (equipment p) slot)"
proof -
  obtain eq where
    loop: "drop_loop (equipment p) [] (equipment p) rng = (dropped, eq, rng')" and
    p': "p' = p\<lparr>equipment := eq,
                 gold := gold p - py_int (real_of_int (gold p) * 0.2),
                 current_hp := max_hp p * 0.1,
                 current_party_id := None\<rparr>"
    using assms(2) by (auto simp: handle_player_death_def Let_def split: prod.splits)
  from drop_loop_effect[OF loop] have slots:
    "\<forall>slot. map_of eq slot =
        (if slot \<in> fst ` set dropped then Some None else map_of (equipment p) slot)"
    by simp
  have "0 \<le> real_of_int (gold p) * 0.2" using assms(1) by simp
  then have g: "gold p' = gold p - \<lfloor>real_of_int (gold p) * 0.2\<rfloor>"
    using p' by (simp add: py_int_def)
  have g100: "gold p' = 80" if "gold p = 100"
    using g that by simp
  show ?thesis using g g100 p' slots by simp
qed

theorem handle_player_death_effect_witness:
  "0 \<le> gold example_player
   \<and> handle_player_death example_player death_draws =
     ([(''weapon'', [(''power'', 3)])],
      example_player\<lparr>equipment := [(''weapon'', None), (''armor'', None),
                                   (''ring'', Some [(''power'', 1)])],
                     gold := 80, current_hp := 10, current_party_id := None\<rparr>,
      sconst 0.5)
   \<and> gold (example_player\<lparr>equipment := [(''weapon'', None), (''armor'', None),
                                   (''ring'', Some [(''power'', 1)])],
                     gold := 80, current_hp := 10, current_party_id := None\<rparr>)
       = gold example_player - \<lfloor>real_of_int (gold example_player) * 0.2\<rfloor>"
proof -
  have g: "0 \<le> gold example_player" by (simp add: example_player_def)
  show ?thesis using handle_player_death_effect[OF g example_death] g example_death by blast
qed

end
